theory Spec2Isabelle
  imports Complex_Main "HOL-Library.AList" "HOL-Library.Sublist"
begin

section \<open>Expressions\<close>

text \<open>
  Modelled from the spec: the symbolic expression tree (\<open>pybamm.Symbol\<close>,
  \<open>pybamm.Scalar\<close>) is an external collaborator of \<open>base_model.py\<close>; only the
  attributes the model class reads are represented. An expression has an \<open>id\<close>, a
  \<open>domain\<close> (a sequence of region labels, empty for "no domain"), the answer of
  \<open>has_spatial_derivatives()\<close>, and its children; \<open>pre_order()\<close> yields the
  expression itself and then all its descendants. \<open>Scalar x\<close> wraps the bare number
  \<open>x\<close> and has the empty domain. Two expressions that are equal as dictionary keys
  have equal ids; two different keys may share an id.
\<close>

type_synonym number = real

datatype identity = Scalar_id number | Symbol_id nat

datatype expression =
    Scalar number
  | Symbol nat "string list" bool "expression list"

fun ident :: "expression \<Rightarrow> identity" where
  "ident (Scalar x) = Scalar_id x"
| "ident (Symbol i d s cs) = Symbol_id i"

fun domain :: "expression \<Rightarrow> string list" where
  "domain (Scalar x) = []"
| "domain (Symbol i d s cs) = d"

fun has_spatial_derivatives :: "expression \<Rightarrow> bool" where
  "has_spatial_derivatives (Scalar x) = False"
| "has_spatial_derivatives (Symbol i d s cs) = s"

fun scalar_value :: "expression \<Rightarrow> number option" where
  "scalar_value (Scalar x) = Some x"
| "scalar_value (Symbol i d s cs) = None"

fun pre_order :: "expression \<Rightarrow> expression list" where
  "pre_order (Scalar x) = [Scalar x]"
| "pre_order (Symbol i d s cs) = Symbol i d s cs # concat (map pre_order cs)"

section \<open>Exceptions\<close>

text \<open>
  \<open>assert cond, pybamm.ModelError(...)\<close> raises an \<open>AssertionError\<close> whose argument is
  the \<open>ModelError\<close> object; \<open>raise pybamm.DomainError(...)\<close> raises the
  \<open>DomainError\<close> itself. Reading \<open>.domain\<close> or calling
  \<open>.has_spatial_derivatives()\<close> on a bare number raises \<open>AttributeError\<close>.
\<close>

datatype model_error =
    Duplicate_variables
  | No_initial_condition expression
  | No_boundary_condition expression expression

datatype exn =
    DomainError string
  | ModelError model_error
  | AssertionError exn
  | AttributeError

section \<open>Dictionaries and the object store\<close>

text \<open>
  A Python \<open>dict\<close> is an association list in insertion order with pairwise different
  keys. The values of an equation dictionary are expressions or bare numbers.
  The model holds its collections by reference and mutates them in place, and the
  setters keep the very object the caller passes: the collections live in a store,
  and a model is a record of references into it. The inner dictionary of a boundary
  condition (side to value) is kept by value inside the outer one.
\<close>

datatype val = Num number | Exp expression

type_synonym ('k, 'v) dict = "('k \<times> 'v) list"
type_synonym ref = nat

fun setitem :: "'k \<Rightarrow> 'v \<Rightarrow> ('k, 'v) dict \<Rightarrow> ('k, 'v) dict" where
  "setitem k v [] = [(k, v)]"
| "setitem k v ((k', v') # d) = (if k' = k then (k, v) # d else (k', v') # setitem k v d)"


record store =
  eqn_dicts :: "ref \<Rightarrow> (expression, val) dict"
  bc_dicts :: "ref \<Rightarrow> (expression, (string, val) dict) dict"
  var_dicts :: "ref \<Rightarrow> (string, expression) dict"
  alg_lists :: "ref \<Rightarrow> expression list"

record base_model =
  rhs :: ref
  algebraic :: ref
  initial_conditions :: ref
  initial_conditions_ydot :: ref
  boundary_conditions :: ref
  variables :: ref
  concatenated_rhs :: "expression option"
  concatenated_initial_conditions :: "expression option"

section \<open>The setters\<close>

text \<open>
  The first loop of \<open>_set_dict\<close> (and the loops of the \<open>boundary_conditions\<close>
  setter): every value that is a number is replaced, in the dictionary itself, by
  \<open>pybamm.Scalar\<close> of it.
\<close>

definition lift_numbers :: "('k, val) dict \<Rightarrow> ('k, val) dict" where
  "lift_numbers d =
     fold (\<lambda>(var, eqn) acc. case eqn of Num x \<Rightarrow> setitem var (Exp (Scalar x)) acc | Exp e \<Rightarrow> acc) d d"

text \<open>
  The list comprehension of \<open>_set_dict\<close>: one truth value per item,
  \<open>variable.domain == equation.domain or equation.domain == []\<close>.
\<close>

fun domain_flags :: "(expression, val) dict \<Rightarrow> exn + bool list" where
  "domain_flags [] = Inr []"
| "domain_flags ((variable, equation) # rest) =
     (case equation of
        Num x \<Rightarrow> Inl AttributeError
      | Exp e \<Rightarrow>
          (case domain_flags rest of
             Inl err \<Rightarrow> Inl err
           | Inr flags \<Rightarrow> Inr ((domain variable = domain e \<or> domain e = []) # flags)))"

definition domain_message :: "string \<Rightarrow> string" where
  "domain_message name = ''variable and equation in '' @ name @ '' must have the same domain''"

definition set_dict :: "store \<Rightarrow> ref \<Rightarrow> string \<Rightarrow> store \<times> (exn + ref)" where
  "set_dict \<sigma> dict name =
     (let \<sigma>' = \<sigma>\<lparr>eqn_dicts := (eqn_dicts \<sigma>)(dict := lift_numbers (eqn_dicts \<sigma> dict))\<rparr>
      in case domain_flags (eqn_dicts \<sigma>' dict) of
           Inl err \<Rightarrow> (\<sigma>', Inl err)
         | Inr flags \<Rightarrow>
             if \<not> list_all (\<lambda>b. b) flags
             then (\<sigma>', Inl (DomainError (domain_message name)))
             else (\<sigma>', Inr dict))"

definition set_rhs :: "store \<Rightarrow> base_model \<Rightarrow> ref \<Rightarrow> store \<times> base_model \<times> exn option" where
  "set_rhs \<sigma> self d =
     (case set_dict \<sigma> d ''rhs'' of
        (\<sigma>', Inl err) \<Rightarrow> (\<sigma>', self, Some err)
      | (\<sigma>', Inr r) \<Rightarrow> (\<sigma>', self\<lparr>rhs := r\<rparr>, None))"

definition set_algebraic :: "store \<Rightarrow> base_model \<Rightarrow> ref \<Rightarrow> store \<times> base_model \<times> exn option" where
  "set_algebraic \<sigma> self a = (\<sigma>, self\<lparr>algebraic := a\<rparr>, None)"

definition set_initial_conditions ::
    "store \<Rightarrow> base_model \<Rightarrow> ref \<Rightarrow> store \<times> base_model \<times> exn option" where
  "set_initial_conditions \<sigma> self d =
     (case set_dict \<sigma> d ''initial_conditions'' of
        (\<sigma>', Inl err) \<Rightarrow> (\<sigma>', self, Some err)
      | (\<sigma>', Inr r) \<Rightarrow> (\<sigma>', self\<lparr>initial_conditions := r\<rparr>, None))"

definition set_initial_conditions_ydot ::
    "store \<Rightarrow> base_model \<Rightarrow> ref \<Rightarrow> store \<times> base_model \<times> exn option" where
  "set_initial_conditions_ydot \<sigma> self d =
     (case set_dict \<sigma> d ''initial_conditions_ydot'' of
        (\<sigma>', Inl err) \<Rightarrow> (\<sigma>', self, Some err)
      | (\<sigma>', Inr r) \<Rightarrow> (\<sigma>', self\<lparr>initial_conditions_ydot := r\<rparr>, None))"

text \<open>
  The nested loops of the \<open>boundary_conditions\<close> setter. The assignment
  \<open>boundary_conditions[var][side] = pybamm.Scalar(eqn)\<close> looks the inner dictionary
  up under \<open>var\<close> (always present: \<open>var\<close> is a key being iterated) and sets its
  entry for \<open>side\<close>.
\<close>

definition lift_boundary_conditions ::
    "(expression, (string, val) dict) dict \<Rightarrow> (expression, (string, val) dict) dict" where
  "lift_boundary_conditions d =
     fold (\<lambda>(var, bcs) acc.
             fold (\<lambda>(side, eqn) acc'.
                     case eqn of
                       Num x \<Rightarrow>
                         (case map_of acc' var of
                            Some inner \<Rightarrow> setitem var (setitem side (Exp (Scalar x)) inner) acc'
                          | None \<Rightarrow> acc')
                     | Exp e \<Rightarrow> acc')
                  bcs acc)
          d d"

definition set_boundary_conditions ::
    "store \<Rightarrow> base_model \<Rightarrow> ref \<Rightarrow> store \<times> base_model \<times> exn option" where
  "set_boundary_conditions \<sigma> self b =
     (\<sigma>\<lparr>bc_dicts := (bc_dicts \<sigma>)(b := lift_boundary_conditions (bc_dicts \<sigma> b))\<rparr>,
      self\<lparr>boundary_conditions := b\<rparr>, None)"

definition set_variables :: "store \<Rightarrow> base_model \<Rightarrow> ref \<Rightarrow> store \<times> base_model \<times> exn option" where
  "set_variables \<sigma> self v = (\<sigma>, self\<lparr>variables := v\<rparr>, None)"

section \<open>update\<close>



section \<open>check_well_posedness\<close>

fun check_initial_conditions :: "expression list \<Rightarrow> expression list \<Rightarrow> exn option" where
  "check_initial_conditions [] ics = None"
| "check_initial_conditions (var # rest) ics =
     (if var \<in> set ics then check_initial_conditions rest ics
      else Some (AssertionError (ModelError (No_initial_condition var))))"

definition mentions :: "expression \<Rightarrow> expression list \<Rightarrow> bool" where
  "mentions var keys =
     list_ex (\<lambda>key. list_ex (\<lambda>symbol. ident var = ident symbol) (pre_order key)) keys"

fun check_boundary_conditions :: "(expression, val) dict \<Rightarrow> expression list \<Rightarrow> exn option" where
  "check_boundary_conditions [] keys = None"
| "check_boundary_conditions ((var, eqn) # rest) keys =
     (case eqn of
        Num x \<Rightarrow> Some AttributeError
      | Exp e \<Rightarrow>
          if has_spatial_derivatives e
          then (if mentions var keys then check_boundary_conditions rest keys
                else Some (AssertionError (ModelError (No_boundary_condition var e))))
          else check_boundary_conditions rest keys)"

definition initial_conditions_pass :: "store \<Rightarrow> base_model \<Rightarrow> exn option" where
  "initial_conditions_pass \<sigma> self =
     check_initial_conditions (map fst (eqn_dicts \<sigma> (rhs self)))
                              (map fst (eqn_dicts \<sigma> (initial_conditions self)))"

definition boundary_conditions_pass :: "store \<Rightarrow> base_model \<Rightarrow> exn option" where
  "boundary_conditions_pass \<sigma> self =
     check_boundary_conditions (eqn_dicts \<sigma> (rhs self))
                               (map fst (bc_dicts \<sigma> (boundary_conditions self)))"

definition check_well_posedness :: "store \<Rightarrow> base_model \<Rightarrow> exn option" where
  "check_well_posedness \<sigma> self =
     (case initial_conditions_pass \<sigma> self of
        Some err \<Rightarrow> Some err
      | None \<Rightarrow> boundary_conditions_pass \<sigma> self)"

section \<open>Vocabulary of the statements\<close>

text \<open>
  The expression a dictionary value stands for once numbers are lifted: a bare number
  \<open>x\<close> stands for \<open>pybamm.Scalar(x)\<close>, an expression for itself.
\<close>

fun as_expression :: "val \<Rightarrow> expression" where
  "as_expression (Num x) = Scalar x"
| "as_expression (Exp e) = e"



section \<open>Example models\<close>

text \<open>
  The scenario of the specification: a variable \<open>c\<close> whose equation has a spatial
  derivative, a variable \<open>T\<close>, a flux expression whose subtree contains \<open>c\<close>;
  a host model and two submodels, the \<open>n\<close>-th model holding the collections
  \<open>__init__\<close> allocates for it. Submodel 1 has \<open>rhs = {c: dcdt}\<close>,
  \<open>initial_conditions = {c: 1.0}\<close> and boundary conditions on the flux; submodel 2 has
  \<open>rhs = {T: dTdt}\<close> and no initial condition. Objects 9 and 10 are dictionaries a
  caller is about to pass to a setter, the second with an equation on another domain;
  object 3 of the boundary conditions is one with a bare number. Model 4 is a third
  submodel, which has an equation for \<open>c\<close> as well.
\<close>

definition c_var :: expression where
  "c_var = Symbol 1 [''electrolyte''] False []"

definition T_var :: expression where
  "T_var = Symbol 2 [''electrolyte''] False []"

definition dcdt :: expression where
  "dcdt = Symbol 3 [''electrolyte''] True [c_var]"

definition dTdt :: expression where
  "dTdt = Symbol 4 [''electrolyte''] False [T_var]"

definition flux :: expression where
  "flux = Symbol 5 [] False [c_var]"

definition separator_eqn :: expression where
  "separator_eqn = Symbol 6 [''separator''] False []"

definition model_at :: "nat \<Rightarrow> base_model" where
  "model_at n =
     \<lparr>rhs = 3 * n, algebraic = n, initial_conditions = 3 * n + 1,
      initial_conditions_ydot = 3 * n + 2, boundary_conditions = n, variables = n,
      concatenated_rhs = None, concatenated_initial_conditions = None\<rparr>"

definition example_store :: store where
  "example_store =
     \<lparr>eqn_dicts = (\<lambda>r. [])
        (3 := [(c_var, Exp dcdt)], 4 := [(c_var, Exp (Scalar 1))], 6 := [(T_var, Exp dTdt)],
         9 := [(c_var, Num 1), (T_var, Exp dTdt)],
         10 := [(c_var, Num 1), (T_var, Exp separator_eqn)],
         12 := [(c_var, Exp dTdt)]),
      bc_dicts = (\<lambda>r. [])
        (1 := [(flux, [(''left'', Exp (Scalar 0)), (''right'', Exp (Scalar 0))])],
         3 := [(flux, [(''left'', Num 0), (''right'', Exp c_var)])]),
      var_dicts = (\<lambda>r. [])(1 := [(''c'', c_var)], 2 := [(''c'', T_var)]),
      alg_lists = (\<lambda>r. [])\<rparr>"

lemmas example_defs =
  example_store_def model_at_def c_var_def T_var_def dcdt_def dTdt_def flux_def separator_eqn_def

section \<open>Dictionary lemmas\<close>




lemma setitem_append_fresh:
  "k \<notin> fst ` set ys \<Longrightarrow> setitem k v (ys @ (k, e) # xs) = ys @ (k, v) # xs"
  by (induction ys) auto







lemma lift_numbers_aux:
  "distinct (map fst (ys @ xs)) \<Longrightarrow>
   fold (\<lambda>(var, eqn) acc. case eqn of Num x \<Rightarrow> setitem var (Exp (Scalar x)) acc | Exp e \<Rightarrow> acc) xs (ys @ xs)
   = ys @ map (\<lambda>(var, eqn). (var, case eqn of Num x \<Rightarrow> Exp (Scalar x) | Exp e \<Rightarrow> Exp e)) xs"
proof (induction xs arbitrary: ys)
  case Nil
  then show ?case by simp
next
  case (Cons p xs)
  obtain k e where p: "p = (k, e)" by (cases p)
  let ?g = "\<lambda>eqn. case eqn of Num x \<Rightarrow> Exp (Scalar x) | Exp e \<Rightarrow> Exp e"
  from Cons.prems have fresh: "k \<notin> fst ` set ys" by (auto simp: p)
  have step: "(case e of Num x \<Rightarrow> setitem k (Exp (Scalar x)) (ys @ (k, e) # xs) | Exp e' \<Rightarrow> ys @ (k, e) # xs)
     = (ys @ [(k, ?g e)]) @ xs"
    using setitem_append_fresh [OF fresh] by (cases e) auto
  have "distinct (map fst ((ys @ [(k, ?g e)]) @ xs))" using Cons.prems by (auto simp: p)
  from Cons.IH [OF this] show ?case
    by (simp add: p step)
qed

section \<open>Well-posedness\<close>








text \<open>
  C10. A model whose \<open>rhs\<close> is empty passes \<open>check_well_posedness\<close>, whatever its
  other collections hold: both passes range over the items of \<open>rhs\<close> only, and the
  algebraic equations are read by neither.
\<close>

theorem empty_rhs_well_posed:
  assumes "eqn_dicts \<sigma> (rhs self) = []"
  shows "check_well_posedness \<sigma> self = None"
  using assms
  by (simp add: check_well_posedness_def initial_conditions_pass_def boundary_conditions_pass_def)

theorem empty_rhs_well_posed_witness:
  "eqn_dicts example_store (rhs (model_at 0)) = []
   \<and> check_well_posedness (example_store\<lparr>alg_lists := (\<lambda>r. [dcdt])\<rparr>) (model_at 0) = None"
proof -
  have h: "eqn_dicts (example_store\<lparr>alg_lists := (\<lambda>r. [dcdt])\<rparr>) (rhs (model_at 0)) = []"
    by (simp add: example_defs)
  show ?thesis using empty_rhs_well_posed [OF h] by (simp add: example_defs)
qed

section \<open>The setters: lemmas\<close>

lemma lift_numbers_distinct:
  assumes "distinct (map fst d)"
  shows "lift_numbers d = map (\<lambda>(var, eqn). (var, Exp (as_expression eqn))) d"
proof -
  have "(\<lambda>(var, eqn). (var, case eqn of Num x \<Rightarrow> Exp (Scalar x) | Exp e \<Rightarrow> Exp e))
      = (\<lambda>(var :: 'a, eqn). (var, Exp (as_expression eqn)))"
    by (auto simp: fun_eq_iff split: val.splits)
  with lift_numbers_aux [of "[]" d] assms show ?thesis
    by (simp add: lift_numbers_def)
qed

lemma lift_numbers_fold_id:
  "\<forall>(var, eqn) \<in> set xs. \<exists>e. eqn = Exp e \<Longrightarrow>
   fold (\<lambda>(var, eqn) acc. case eqn of Num x \<Rightarrow> setitem var (Exp (Scalar x)) acc | Exp e \<Rightarrow> acc) xs d = d"
  by (induction xs arbitrary: d) auto

lemma lift_numbers_expressions:
  "\<forall>(var, eqn) \<in> set d. \<exists>e. eqn = Exp e \<Longrightarrow> lift_numbers d = d"
  by (simp add: lift_numbers_def lift_numbers_fold_id)

lemma domain_flags_lifted:
  "domain_flags (map (\<lambda>(var, eqn). (var, Exp (as_expression eqn))) d)
   = Inr (map (\<lambda>(var, eqn). domain var = domain (as_expression eqn) \<or> domain (as_expression eqn) = []) d)"
  by (induction d) auto

lemma list_all_flags:
  "list_all (\<lambda>b. b) (map (\<lambda>(var, eqn). domain var = domain (as_expression eqn) \<or> domain (as_expression eqn) = []) d)
   \<longleftrightarrow> \<not> (\<exists>(var, eqn) \<in> set d. domain (as_expression eqn) \<noteq> [] \<and> domain var \<noteq> domain (as_expression eqn))"
  by (auto simp: list_all_iff)

lemma set_dict_distinct:
  assumes "distinct (map fst (eqn_dicts \<sigma> d))"
  shows "set_dict \<sigma> d name =
     (\<sigma>\<lparr>eqn_dicts := (eqn_dicts \<sigma>)(d := map (\<lambda>(var, eqn). (var, Exp (as_expression eqn))) (eqn_dicts \<sigma> d))\<rparr>,
      if \<exists>(var, eqn) \<in> set (eqn_dicts \<sigma> d).
            domain (as_expression eqn) \<noteq> [] \<and> domain var \<noteq> domain (as_expression eqn)
      then Inl (DomainError (domain_message name)) else Inr d)"
  unfolding set_dict_def Let_def
  by (simp add: lift_numbers_distinct [OF assms] domain_flags_lifted list_all_flags)

lemma map_of_append_fresh:
  "k \<notin> fst ` set ys \<Longrightarrow> map_of (ys @ (k, v) # xs) k = Some v"
  by (induction ys) auto

lemma lift_sides_aux:
  assumes "var \<notin> fst ` set ys" and "distinct (map fst (zs @ ws))"
  shows "fold (\<lambda>(side, eqn) acc'.
                 case eqn of
                   Num x \<Rightarrow>
                     (case map_of acc' var of
                        Some inner \<Rightarrow> setitem var (setitem side (Exp (Scalar x)) inner) acc'
                      | None \<Rightarrow> acc')
                 | Exp e \<Rightarrow> acc')
              ws (ys @ (var, zs @ ws) # xs)
         = ys @ (var, zs @ map (\<lambda>(side, eqn). (side, Exp (as_expression eqn))) ws) # xs"
  using assms(2)
proof (induction ws arbitrary: zs)
  case Nil
  then show ?case by simp
next
  case (Cons p ws)
  obtain side eqn where p: "p = (side, eqn)" by (cases p)
  from Cons.prems have fresh: "side \<notin> fst ` set zs" by (auto simp: p)
  have d: "distinct (map fst ((zs @ [(side, Exp (as_expression eqn))]) @ ws))"
    using Cons.prems by (auto simp: p)
  have step: "(case eqn of
                 Num x \<Rightarrow>
                   (case map_of (ys @ (var, zs @ (side, eqn) # ws) # xs) var of
                      Some inner \<Rightarrow> setitem var (setitem side (Exp (Scalar x)) inner)
                                      (ys @ (var, zs @ (side, eqn) # ws) # xs)
                    | None \<Rightarrow> ys @ (var, zs @ (side, eqn) # ws) # xs)
               | Exp e \<Rightarrow> ys @ (var, zs @ (side, eqn) # ws) # xs)
            = ys @ (var, (zs @ [(side, Exp (as_expression eqn))]) @ ws) # xs"
    by (cases eqn)
       (simp_all add: map_of_append_fresh [OF assms(1)] setitem_append_fresh [OF fresh]
          setitem_append_fresh [OF assms(1)] del: map_of_append)
  show ?case
    using Cons.IH [OF d] by (simp add: p step)
qed

lemma lift_boundary_conditions_aux:
  assumes "distinct (map fst (ys @ xs))" and "\<forall>(var, bcs) \<in> set xs. distinct (map fst bcs)"
  shows "fold (\<lambda>(var, bcs) acc.
             fold (\<lambda>(side, eqn) acc'.
                     case eqn of
                       Num x \<Rightarrow>
                         (case map_of acc' var of
                            Some inner \<Rightarrow> setitem var (setitem side (Exp (Scalar x)) inner) acc'
                          | None \<Rightarrow> acc')
                     | Exp e \<Rightarrow> acc')
                  bcs acc)
          xs (ys @ xs)
        = ys @ map (\<lambda>(var, bcs). (var, map (\<lambda>(side, eqn). (side, Exp (as_expression eqn))) bcs)) xs"
  using assms
proof (induction xs arbitrary: ys)
  case Nil
  then show ?case by simp
next
  case (Cons p xs)
  obtain var bcs where p: "p = (var, bcs)" by (cases p)
  let ?L = "map (\<lambda>(side, eqn). (side, Exp (as_expression eqn)))"
  from Cons.prems have fresh: "var \<notin> fst ` set ys" and sides: "distinct (map fst ([] @ bcs))"
    by (auto simp: p)
  have d: "distinct (map fst ((ys @ [(var, ?L bcs)]) @ xs))"
    using Cons.prems(1) by (auto simp: p)
  have rest: "\<forall>(var, bcs) \<in> set xs. distinct (map fst bcs)"
    using Cons.prems(2) by simp
  show ?case
    using Cons.IH [OF d rest] lift_sides_aux [OF fresh sides, of xs]
    by (simp add: p)
qed

lemma lift_boundary_conditions_distinct:
  assumes "distinct (map fst d)" and "\<forall>(var, bcs) \<in> set d. distinct (map fst bcs)"
  shows "lift_boundary_conditions d
       = map (\<lambda>(var, bcs). (var, map (\<lambda>(side, eqn). (side, Exp (as_expression eqn))) bcs)) d"
  using lift_boundary_conditions_aux [of "[]" d] assms
  by (simp add: lift_boundary_conditions_def)

lemma set_rhs_distinct:
  assumes "distinct (map fst (eqn_dicts \<sigma> d))"
  shows "set_rhs \<sigma> self d =
     (\<sigma>\<lparr>eqn_dicts := (eqn_dicts \<sigma>)(d := map (\<lambda>(var, eqn). (var, Exp (as_expression eqn))) (eqn_dicts \<sigma> d))\<rparr>,
      if \<exists>(var, eqn) \<in> set (eqn_dicts \<sigma> d).
            domain (as_expression eqn) \<noteq> [] \<and> domain var \<noteq> domain (as_expression eqn)
      then (self, Some (DomainError (domain_message ''rhs''))) else (self\<lparr>rhs := d\<rparr>, None))"
  by (simp add: set_rhs_def set_dict_distinct [OF assms])

lemma set_initial_conditions_distinct:
  assumes "distinct (map fst (eqn_dicts \<sigma> d))"
  shows "set_initial_conditions \<sigma> self d =
     (\<sigma>\<lparr>eqn_dicts := (eqn_dicts \<sigma>)(d := map (\<lambda>(var, eqn). (var, Exp (as_expression eqn))) (eqn_dicts \<sigma> d))\<rparr>,
      if \<exists>(var, eqn) \<in> set (eqn_dicts \<sigma> d).
            domain (as_expression eqn) \<noteq> [] \<and> domain var \<noteq> domain (as_expression eqn)
      then (self, Some (DomainError (domain_message ''initial_conditions'')))
      else (self\<lparr>initial_conditions := d\<rparr>, None))"
  by (simp add: set_initial_conditions_def set_dict_distinct [OF assms])

lemma set_initial_conditions_ydot_distinct:
  assumes "distinct (map fst (eqn_dicts \<sigma> d))"
  shows "set_initial_conditions_ydot \<sigma> self d =
     (\<sigma>\<lparr>eqn_dicts := (eqn_dicts \<sigma>)(d := map (\<lambda>(var, eqn). (var, Exp (as_expression eqn))) (eqn_dicts \<sigma> d))\<rparr>,
      if \<exists>(var, eqn) \<in> set (eqn_dicts \<sigma> d).
            domain (as_expression eqn) \<noteq> [] \<and> domain var \<noteq> domain (as_expression eqn)
      then (self, Some (DomainError (domain_message ''initial_conditions_ydot'')))
      else (self\<lparr>initial_conditions_ydot := d\<rparr>, None))"
  by (simp add: set_initial_conditions_ydot_def set_dict_distinct [OF assms])

lemmas setters_distinct =
  set_rhs_distinct set_initial_conditions_distinct set_initial_conditions_ydot_distinct

lemma map_lift_expressions:
  "\<forall>(v, eqn) \<in> set d. \<exists>e. eqn = Exp e \<Longrightarrow>
   map (\<lambda>(var, eqn). (var, Exp (as_expression eqn))) d = d"
  by (induction d) auto

lemma map_of_map_value:
  assumes "distinct (map fst d)" and "(k, v) \<in> set d"
  shows "map_of (map (\<lambda>(k, v). (k, f v)) d) k = Some (f v)"
  using map_of_is_SomeI [OF assms] by (simp add: map_of_map)

lemma set_boundary_conditions_distinct:
  assumes "distinct (map fst (bc_dicts \<sigma> b))"
    and "\<forall>(key, sides) \<in> set (bc_dicts \<sigma> b). distinct (map fst sides)"
  shows "set_boundary_conditions \<sigma> self b =
    (\<sigma>\<lparr>bc_dicts := (bc_dicts \<sigma>)
        (b := map (\<lambda>(key, sides). (key, map (\<lambda>(side, equation). (side, Exp (as_expression equation))) sides))
                (bc_dicts \<sigma> b))\<rparr>,
     self\<lparr>boundary_conditions := b\<rparr>, None)"
  by (simp add: set_boundary_conditions_def lift_boundary_conditions_distinct [OF assms])

section \<open>The setters: domain consistency and lifting\<close>

text \<open>
  C4. Assigning a mapping to \<open>rhs\<close>, \<open>initial_conditions\<close> or
  \<open>initial_conditions_ydot\<close> fails, in the assignment itself, with the
  \<open>DomainError\<close> whose message names that collection exactly when, numbers being
  read as Scalars, some pair has an equation with a non-empty domain different from
  its variable's domain; otherwise the assignment succeeds.
\<close>

theorem domain_error_iff:
  assumes "distinct (map fst (eqn_dicts \<sigma> d))"
  shows "snd (snd (set_rhs \<sigma> self d)) =
           (if \<exists>(variable, equation) \<in> set (eqn_dicts \<sigma> d).
                 domain (as_expression equation) \<noteq> []
                 \<and> domain variable \<noteq> domain (as_expression equation)
            then Some (DomainError ''variable and equation in rhs must have the same domain'')
            else None)
       \<and> snd (snd (set_initial_conditions \<sigma> self d)) =
           (if \<exists>(variable, equation) \<in> set (eqn_dicts \<sigma> d).
                 domain (as_expression equation) \<noteq> []
                 \<and> domain variable \<noteq> domain (as_expression equation)
            then Some (DomainError
                   ''variable and equation in initial_conditions must have the same domain'')
            else None)
       \<and> snd (snd (set_initial_conditions_ydot \<sigma> self d)) =
           (if \<exists>(variable, equation) \<in> set (eqn_dicts \<sigma> d).
                 domain (as_expression equation) \<noteq> []
                 \<and> domain variable \<noteq> domain (as_expression equation)
            then Some (DomainError
                   ''variable and equation in initial_conditions_ydot must have the same domain'')
            else None)"
  by (simp add: setters_distinct [OF assms] domain_message_def)

theorem domain_error_iff_witness:
  "snd (snd (set_rhs example_store (model_at 0) 10))
     = Some (DomainError ''variable and equation in rhs must have the same domain'')
   \<and> snd (snd (set_initial_conditions example_store (model_at 0) 10))
     = Some (DomainError ''variable and equation in initial_conditions must have the same domain'')
   \<and> snd (snd (set_rhs example_store (model_at 0) 9)) = None"
proof -
  have h10: "distinct (map fst (eqn_dicts example_store 10))"
    and h9: "distinct (map fst (eqn_dicts example_store 9))"
    by (simp_all add: example_defs)
  show ?thesis
    using domain_error_iff [OF h10, of "model_at 0"] domain_error_iff [OF h9, of "model_at 0"]
    by (simp add: example_defs)
qed

text \<open>
  C5. When a mapping with a pair of unequal non-empty domains is assigned through one
  of the three setters, the call fails with a \<open>DomainError\<close> and the registry is as
  before: it holds the same objects, and its three equation mappings, its boundary
  conditions, variables and algebraic list have the contents they had. The registry's
  mappings map expressions to expressions, as the class documents; so if the caller
  passes a mapping the registry already holds, it holds no bare number.
\<close>

theorem failed_setter_keeps_registry:
  assumes "setter \<in> {set_rhs, set_initial_conditions, set_initial_conditions_ydot}"
    and "distinct (map fst (eqn_dicts \<sigma> d))"
    and "(variable, equation) \<in> set (eqn_dicts \<sigma> d)"
    and "domain (as_expression equation) \<noteq> []"
    and "domain variable \<noteq> domain (as_expression equation)"
    and "d \<in> {rhs self, initial_conditions self, initial_conditions_ydot self} \<longrightarrow>
           (\<forall>(v, eqn) \<in> set (eqn_dicts \<sigma> d). \<exists>e. eqn = Exp e)"
    and "setter \<sigma> self d = (\<sigma>', self', err)"
  shows "(\<exists>msg. err = Some (DomainError msg)) \<and> self' = self
       \<and> eqn_dicts \<sigma>' (rhs self) = eqn_dicts \<sigma> (rhs self)
       \<and> eqn_dicts \<sigma>' (initial_conditions self) = eqn_dicts \<sigma> (initial_conditions self)
       \<and> eqn_dicts \<sigma>' (initial_conditions_ydot self) = eqn_dicts \<sigma> (initial_conditions_ydot self)
       \<and> bc_dicts \<sigma>' = bc_dicts \<sigma> \<and> var_dicts \<sigma>' = var_dicts \<sigma> \<and> alg_lists \<sigma>' = alg_lists \<sigma>"
proof -
  let ?lifted = "map (\<lambda>(var, eqn). (var, Exp (as_expression eqn))) (eqn_dicts \<sigma> d)"
  have conflict: "\<exists>(var, eqn) \<in> set (eqn_dicts \<sigma> d).
      domain (as_expression eqn) \<noteq> [] \<and> domain var \<noteq> domain (as_expression eqn)"
    using assms(3-5) by blast
  have res: "\<sigma>' = \<sigma>\<lparr>eqn_dicts := (eqn_dicts \<sigma>)(d := ?lifted)\<rparr>" "self' = self"
       "\<exists>msg. err = Some (DomainError msg)"
    using assms(1,7) by (auto simp: setters_distinct [OF assms(2)] if_P [OF conflict])
  have same: "?lifted = eqn_dicts \<sigma> d"
    if "d \<in> {rhs self, initial_conditions self, initial_conditions_ydot self}"
    using that assms(6) by (intro map_lift_expressions) blast
  have "eqn_dicts \<sigma>' r = eqn_dicts \<sigma> r"
    if "r \<in> {rhs self, initial_conditions self, initial_conditions_ydot self}" for r
    using that same by (cases "r = d") (auto simp: res(1))
  then show ?thesis using res by simp
qed

theorem failed_setter_keeps_registry_witness:
  "set_rhs example_store (model_at 1) 10 =
     (example_store\<lparr>eqn_dicts := (eqn_dicts example_store)
          (10 := [(c_var, Exp (Scalar 1)), (T_var, Exp separator_eqn)])\<rparr>,
      model_at 1,
      Some (DomainError ''variable and equation in rhs must have the same domain''))
   \<and> eqn_dicts (fst (set_rhs example_store (model_at 1) 10)) (rhs (model_at 1))
       = [(c_var, Exp dcdt)]"
proof -
  have "set_rhs \<in> {set_rhs, set_initial_conditions, set_initial_conditions_ydot}" by simp
  moreover have "distinct (map fst (eqn_dicts example_store 10))" by (simp add: example_defs)
  moreover have "(T_var, Exp separator_eqn) \<in> set (eqn_dicts example_store 10)"
    by (simp add: example_defs)
  moreover have "domain (as_expression (Exp separator_eqn)) \<noteq> []" by (simp add: example_defs)
  moreover have "domain T_var \<noteq> domain (as_expression (Exp separator_eqn))"
    by (simp add: example_defs)
  moreover have "10 \<in> {rhs (model_at 1), initial_conditions (model_at 1),
      initial_conditions_ydot (model_at 1)} \<longrightarrow>
      (\<forall>(v, eqn) \<in> set (eqn_dicts example_store 10). \<exists>e. eqn = Exp e)"
    by (simp add: example_defs)
  moreover have "set_rhs example_store (model_at 1) 10 =
     (example_store\<lparr>eqn_dicts := (eqn_dicts example_store)
          (10 := [(c_var, Exp (Scalar 1)), (T_var, Exp separator_eqn)])\<rparr>,
      model_at 1,
      Some (DomainError ''variable and equation in rhs must have the same domain''))"
    by (simp add: example_defs set_rhs_def set_dict_def lift_numbers_def domain_message_def)
  ultimately show ?thesis
    using failed_setter_keeps_registry [of set_rhs example_store 10 T_var "Exp separator_eqn" "model_at 1"]
    by (simp add: example_defs)
qed

text \<open>
  C6. After a successful assignment through \<open>rhs\<close>, \<open>initial_conditions\<close> or
  \<open>initial_conditions_ydot\<close>, the stored mapping has the keys of the input in their
  order, a bare number \<open>x\<close> is stored as \<open>Scalar x\<close> and an expression is stored
  unchanged; the \<open>boundary_conditions\<close> setter, which always succeeds, does the same
  to every side value. \<open>Scalar x\<close> has the empty domain and the numeric value \<open>x\<close>.
\<close>

theorem numbers_are_lifted:
  "((setter, field) \<in> {(set_rhs, rhs), (set_initial_conditions, initial_conditions),
                        (set_initial_conditions_ydot, initial_conditions_ydot)}
      \<and> distinct (map fst (eqn_dicts \<sigma> d))
      \<and> setter \<sigma> self d = (\<sigma>', self', None) \<longrightarrow>
      eqn_dicts \<sigma>' (field self')
        = map (\<lambda>(variable, equation). (variable, Exp (as_expression equation))) (eqn_dicts \<sigma> d)
      \<and> (\<forall>variable x. (variable, Num x) \<in> set (eqn_dicts \<sigma> d) \<longrightarrow>
            map_of (eqn_dicts \<sigma>' (field self')) variable = Some (Exp (Scalar x)))
      \<and> (\<forall>variable e. (variable, Exp e) \<in> set (eqn_dicts \<sigma> d) \<longrightarrow>
            map_of (eqn_dicts \<sigma>' (field self')) variable = Some (Exp e)))
   \<and> (distinct (map fst (bc_dicts \<sigma> b))
      \<and> (\<forall>(key, sides) \<in> set (bc_dicts \<sigma> b). distinct (map fst sides))
      \<and> set_boundary_conditions \<sigma> self b = (\<sigma>'', self'', err) \<longrightarrow>
      err = None \<and> boundary_conditions self'' = b
      \<and> bc_dicts \<sigma>'' b
        = map (\<lambda>(key, sides).
                 (key, map (\<lambda>(side, equation). (side, Exp (as_expression equation))) sides))
            (bc_dicts \<sigma> b)
      \<and> (\<forall>key sides side x. (key, sides) \<in> set (bc_dicts \<sigma> b) \<and> (side, Num x) \<in> set sides \<longrightarrow>
            (\<exists>sides'. map_of (bc_dicts \<sigma>'' b) key = Some sides'
                     \<and> map_of sides' side = Some (Exp (Scalar x))))
      \<and> (\<forall>key sides side e. (key, sides) \<in> set (bc_dicts \<sigma> b) \<and> (side, Exp e) \<in> set sides \<longrightarrow>
            (\<exists>sides'. map_of (bc_dicts \<sigma>'' b) key = Some sides'
                     \<and> map_of sides' side = Some (Exp e))))
   \<and> domain (Scalar x) = [] \<and> scalar_value (Scalar x) = Some x"
proof -
  let ?lift = "\<lambda>equation. Exp (as_expression equation)"
  have eqn: "eqn_dicts \<sigma>' (field self') = map (\<lambda>(variable, equation). (variable, ?lift equation)) (eqn_dicts \<sigma> d)
      \<and> (\<forall>variable x. (variable, Num x) \<in> set (eqn_dicts \<sigma> d) \<longrightarrow>
            map_of (eqn_dicts \<sigma>' (field self')) variable = Some (Exp (Scalar x)))
      \<and> (\<forall>variable e. (variable, Exp e) \<in> set (eqn_dicts \<sigma> d) \<longrightarrow>
            map_of (eqn_dicts \<sigma>' (field self')) variable = Some (Exp e))"
    if m: "(setter, field) \<in> {(set_rhs, rhs), (set_initial_conditions, initial_conditions),
                        (set_initial_conditions_ydot, initial_conditions_ydot)}"
      and d: "distinct (map fst (eqn_dicts \<sigma> d))"
      and r: "setter \<sigma> self d = (\<sigma>', self', None)"
  proof -
    have stored: "eqn_dicts \<sigma>' (field self')
        = map (\<lambda>(variable, equation). (variable, ?lift equation)) (eqn_dicts \<sigma> d)"
      using m r by (auto simp: setters_distinct [OF d] split: if_splits)
    have "map_of (eqn_dicts \<sigma>' (field self')) variable = Some (?lift equation)"
      if "(variable, equation) \<in> set (eqn_dicts \<sigma> d)" for variable equation
      unfolding stored by (rule map_of_map_value [OF d that])
    from this [of _ "Num _"] this [of _ "Exp _"] stored show ?thesis by simp
  qed
  have bc: "err = None \<and> boundary_conditions self'' = b
      \<and> bc_dicts \<sigma>'' b
        = map (\<lambda>(key, sides). (key, map (\<lambda>(side, equation). (side, ?lift equation)) sides))
            (bc_dicts \<sigma> b)
      \<and> (\<forall>key sides side x. (key, sides) \<in> set (bc_dicts \<sigma> b) \<and> (side, Num x) \<in> set sides \<longrightarrow>
            (\<exists>sides'. map_of (bc_dicts \<sigma>'' b) key = Some sides'
                     \<and> map_of sides' side = Some (Exp (Scalar x))))
      \<and> (\<forall>key sides side e. (key, sides) \<in> set (bc_dicts \<sigma> b) \<and> (side, Exp e) \<in> set sides \<longrightarrow>
            (\<exists>sides'. map_of (bc_dicts \<sigma>'' b) key = Some sides'
                     \<and> map_of sides' side = Some (Exp e)))"
    if d: "distinct (map fst (bc_dicts \<sigma> b))"
      and ds: "\<forall>(key, sides) \<in> set (bc_dicts \<sigma> b). distinct (map fst sides)"
      and r: "set_boundary_conditions \<sigma> self b = (\<sigma>'', self'', err)"
  proof -
    have res: "err = None" "boundary_conditions self'' = b"
      and stored: "bc_dicts \<sigma>'' b
        = map (\<lambda>(key, sides). (key, map (\<lambda>(side, equation). (side, ?lift equation)) sides))
            (bc_dicts \<sigma> b)"
      using r by (auto simp: set_boundary_conditions_distinct [OF d ds])
    have "map_of (bc_dicts \<sigma>'' b) key = Some (map (\<lambda>(side, equation). (side, ?lift equation)) sides)
        \<and> map_of (map (\<lambda>(side, equation). (side, ?lift equation)) sides) side = Some (?lift equation)"
      if "(key, sides) \<in> set (bc_dicts \<sigma> b)" and "(side, equation) \<in> set sides"
      for key sides side equation
    proof -
      from ds that(1) have "distinct (map fst sides)" by blast
      from map_of_map_value [OF this that(2), where f = ?lift]
        map_of_map_value [OF d that(1),
          where f = "map (\<lambda>(side, equation). (side, ?lift equation))"]
      show ?thesis unfolding stored by simp
    qed
    from this [of _ _ _ "Num _"] this [of _ _ _ "Exp _"] res stored show ?thesis
      by (simp del: map_of_map) blast
  qed
  have "domain (Scalar x) = [] \<and> scalar_value (Scalar x) = Some x" by simp
  with eqn bc show ?thesis by blast
qed

theorem numbers_are_lifted_witness:
  "eqn_dicts (fst (set_rhs example_store (model_at 0) 9))
       (rhs (fst (snd (set_rhs example_store (model_at 0) 9))))
     = [(c_var, Exp (Scalar 1)), (T_var, Exp dTdt)]
   \<and> bc_dicts (fst (set_boundary_conditions example_store (model_at 0) 3)) 3
     = [(flux, [(''left'', Exp (Scalar 0)), (''right'', Exp c_var)])]
   \<and> domain (Scalar 1) = [] \<and> scalar_value (Scalar 1) = Some 1"
  using numbers_are_lifted [where setter = set_rhs and field = rhs and \<sigma> = example_store
      and d = 9 and self = "model_at 0"
      and \<sigma>' = "fst (set_rhs example_store (model_at 0) 9)"
      and self' = "fst (snd (set_rhs example_store (model_at 0) 9))"
      and b = 3
      and \<sigma>'' = "fst (set_boundary_conditions example_store (model_at 0) 3)"
      and self'' = "fst (snd (set_boundary_conditions example_store (model_at 0) 3))"
      and err = None and x = 1]
  by (simp add: example_defs set_rhs_def set_dict_def lift_numbers_def
        set_boundary_conditions_def lift_boundary_conditions_def)

text \<open>
  C9. The three setters lift the numbers in the mapping object the caller passes, and
  touch no other object; on success the registry's field refers to that very object,
  and on failure, which is a \<open>DomainError\<close>, the registry's fields are as before
  while the caller's mapping has already had its numbers replaced by Scalars.
\<close>

theorem setter_keeps_callers_object:
  assumes "(setter, field) \<in> {(set_rhs, rhs), (set_initial_conditions, initial_conditions),
             (set_initial_conditions_ydot, initial_conditions_ydot)}"
    and "distinct (map fst (eqn_dicts \<sigma> d))"
    and "setter \<sigma> self d = (\<sigma>', self', err)"
  shows "eqn_dicts \<sigma>' d
           = map (\<lambda>(variable, equation). (variable, Exp (as_expression equation))) (eqn_dicts \<sigma> d)
       \<and> (\<forall>r. r \<noteq> d \<longrightarrow> eqn_dicts \<sigma>' r = eqn_dicts \<sigma> r)
       \<and> (err = None \<longrightarrow> field self' = d)
       \<and> (err \<noteq> None \<longrightarrow> (\<exists>msg. err = Some (DomainError msg)) \<and> self' = self)"
  using assms(1,3) by (auto simp: setters_distinct [OF assms(2)] split: if_splits)

theorem setter_keeps_callers_object_witness:
  "eqn_dicts (fst (set_rhs example_store (model_at 1) 10)) 10
     = [(c_var, Exp (Scalar 1)), (T_var, Exp separator_eqn)]
   \<and> snd (set_rhs example_store (model_at 1) 10)
     = (model_at 1, Some (DomainError ''variable and equation in rhs must have the same domain''))
   \<and> eqn_dicts (fst (set_rhs example_store (model_at 1) 9)) 9
     = [(c_var, Exp (Scalar 1)), (T_var, Exp dTdt)]
   \<and> snd (set_rhs example_store (model_at 1) 9) = ((model_at 1)\<lparr>rhs := 9\<rparr>, None)"
proof -
  have m: "(set_rhs, rhs) \<in> {(set_rhs, rhs), (set_initial_conditions, initial_conditions),
             (set_initial_conditions_ydot, initial_conditions_ydot)}" by simp
  have h10: "distinct (map fst (eqn_dicts example_store 10))"
    and h9: "distinct (map fst (eqn_dicts example_store 9))"
    by (simp_all add: example_defs)
  have r10: "set_rhs example_store (model_at 1) 10 =
     (fst (set_rhs example_store (model_at 1) 10), fst (snd (set_rhs example_store (model_at 1) 10)),
      snd (snd (set_rhs example_store (model_at 1) 10)))"
    and r9: "set_rhs example_store (model_at 1) 9 =
     (fst (set_rhs example_store (model_at 1) 9), fst (snd (set_rhs example_store (model_at 1) 9)),
      snd (snd (set_rhs example_store (model_at 1) 9)))"
    by simp_all
  show ?thesis
    using setter_keeps_callers_object [OF m h10 r10] setter_keeps_callers_object [OF m h9 r9]
    by (simp add: example_defs set_rhs_def set_dict_def lift_numbers_def domain_message_def)
qed

section \<open>update: lemmas\<close>



















section \<open>update: duplicates, merging and frame\<close>










end
